theory Spec2Isabelle
  imports Main "HOL-Library.AList"
begin

section \<open>Python values, annotations and exceptions\<close>

text \<open>
  The module \<open>hermes.typeo\<close> builds an \<open>argparse\<close> parser from the signature of a
  callable. The embedding keeps the module's functions under their own names (a leading
  underscore is dropped, since an Isabelle name cannot start with one).

  Exceptions are values: every function that can raise returns \<open>exn + 'a\<close>, with
  \<open>Inl\<close> the exception. Only \<open>TypeError\<close> carries its message, because
  \<open>_parse_union\<close> inspects it.
\<close>

datatype exn =
    AttributeError
  | AssertionError
  | IndexError
  | KeyError
  | ValueError
  | TypeError string
  | ArgumentError
  | SystemExit nat

text \<open>
  Type annotations as \<open>inspect\<close> and \<open>typing\<close> present them: plain classes, the
  \<open>Ellipsis\<close> object (it appears among the arguments of \<open>Tuple[T, ...]\<close>),
  subscripted aliases of the \<open>typing\<close> module with their \<open>__origin__\<close> and
  \<open>__args__\<close>, and unsubscripted aliases (\<open>typing.List\<close>), which have an
  \<open>__origin__\<close> but no \<open>__args__\<close>.
\<close>

datatype origin = O_list | O_tuple | O_dict | O_Sequence | O_Union | O_other string

datatype ann =
    T_bool
  | T_int
  | T_str
  | T_NoneType
  | T_object
  | T_empty
  | T_class string
  | T_Ellipsis
  | Generic origin "ann list"
  | Bare origin

datatype pyval =
    V_None
  | V_bool bool
  | V_int int
  | V_str string
  | V_list "pyval list"
  | V_dict "(string \<times> pyval) list"

text \<open>\<open>param.default\<close>: \<open>inspect._empty\<close> when the parameter has no default.\<close>

datatype default_value = Empty | Default pyval

datatype param_kind =
  POSITIONAL_ONLY | POSITIONAL_OR_KEYWORD | VAR_POSITIONAL | KEYWORD_ONLY | VAR_KEYWORD

text \<open>One entry of \<open>inspect.signature(f).parameters\<close>.\<close>

record param =
  p_name :: string
  p_kind :: param_kind
  p_annotation :: ann
  p_default :: default_value

text \<open>What \<open>make_parser\<close> reads of a callable: \<open>__name__\<close>, \<open>__doc__\<close> and the signature.\<close>

record callable =
  f_name :: string
  f_doc :: "string option"
  parameters :: "param list"

text \<open>
  A type object applied to a token (\<open>int("5")\<close>). The builtins are not part of the
  module, so the functions that coerce take this call as a parameter.
\<close>

type_synonym coerce = "ann \<Rightarrow> string \<Rightarrow> exn + pyval"

section \<open>Strings\<close>

text \<open>
  \<open>str.split(sep)\<close> for a non-empty separator: the pieces between the non-overlapping
  occurrences of \<open>sep\<close>, scanned from the left. Python raises \<open>ValueError\<close> on an
  empty separator; the module only splits on literals, so the model returns the whole
  string there.
\<close>

function split_acc :: "string \<Rightarrow> string \<Rightarrow> string \<Rightarrow> string list" where
  "split_acc sep acc [] = [acc]"
| "split_acc sep acc (c # cs) =
     (if sep \<noteq> [] \<and> take (length sep) (c # cs) = sep
      then acc # split_acc sep [] (drop (length sep) (c # cs))
      else split_acc sep (acc @ [c]) cs)"
  by pat_completeness auto
termination
  by (relation "measure (\<lambda>(sep, acc, s). length s)") auto

definition split_str :: "string \<Rightarrow> string \<Rightarrow> string list" where
  "split_str sep s = split_acc sep [] s"

definition newline :: char where
  "newline = CHR 0x0A"

text \<open>
  \<open>str.isspace\<close> on the ASCII range: tab, line feed, vertical tab, form feed, carriage
  return, the four separators 0x1C..0x1F and the space. A \<open>char\<close> is a byte, so the
  whitespace of Python beyond ASCII is outside the model.
\<close>

definition py_isspace :: "char \<Rightarrow> bool" where
  "py_isspace c = (c \<in> set [CHR 0x09, CHR 0x0A, CHR 0x0B, CHR 0x0C, CHR 0x0D,
                              CHR 0x1C, CHR 0x1D, CHR 0x1E, CHR 0x1F, CHR 0x20])"

definition lstrip :: "string \<Rightarrow> string" where
  "lstrip s = dropWhile py_isspace s"

definition rstrip :: "string \<Rightarrow> string" where
  "rstrip s = rev (dropWhile py_isspace (rev s))"

definition strip :: "string \<Rightarrow> string" where
  "strip s = rstrip (lstrip s)"

definition startswith :: "string \<Rightarrow> string \<Rightarrow> bool" where
  "startswith s p = (take (length p) s = p)"

definition spaces :: "nat \<Rightarrow> string" where
  "spaces n = replicate n (CHR '' '')"

text \<open>\<open>needle in haystack\<close> on strings.\<close>

fun contains :: "string \<Rightarrow> string \<Rightarrow> bool" where
  "contains [] needle = (needle = [])"
| "contains (c # cs) needle = (startswith (c # cs) needle \<or> contains cs needle)"

text \<open>\<open>s.replace(a, b)\<close> for single characters.\<close>

definition replace_char :: "char \<Rightarrow> char \<Rightarrow> string \<Rightarrow> string" where
  "replace_char a b s = map (\<lambda>c. if c = a then b else c) s"

section \<open>\<open>_parse_help\<close>\<close>

text \<open>
  The loop of \<open>_parse_help\<close> over the lines of the arguments section, with its two
  variables \<open>doc_str\<close> and \<open>started\<close>. The branches are in the order of the source:
  the marker line first, then the \<open>break\<close>, then the append.
\<close>

fun parse_help_loop :: "string \<Rightarrow> string list \<Rightarrow> string \<Rightarrow> bool \<Rightarrow> string" where
  "parse_help_loop arg_name [] doc_str started = doc_str"
| "parse_help_loop arg_name (line # lines) doc_str started =
     (if line = spaces 8 @ arg_name @ '':'' then parse_help_loop arg_name lines doc_str True
      else if \<not> startswith line (spaces 12) \<and> started then doc_str
      else if started then parse_help_loop arg_name lines (doc_str @ '' '' @ strip line) started
      else parse_help_loop arg_name lines doc_str started)"

definition parse_help :: "string \<Rightarrow> string \<Rightarrow> string" where
  "parse_help args arg_name = parse_help_loop arg_name (split_str [newline] args) [] False"

text \<open>
  The help text as the specification words it: the stripped continuation lines joined by
  a single space.
\<close>

fun join_with :: "string \<Rightarrow> string list \<Rightarrow> string" where
  "join_with sep [] = []"
| "join_with sep [x] = x"
| "join_with sep (x # y # ys) = x @ sep @ join_with sep (y # ys)"

definition spec_help_text :: "string list \<Rightarrow> string" where
  "spec_help_text continuation = join_with '' '' (map strip continuation)"

section \<open>Attribute access on annotations\<close>

text \<open>
  \<open>annotation.__origin__\<close> and \<open>annotation.__args__\<close> raise \<open>AttributeError\<close> on
  a plain class; \<open>xs[i]\<close> raises \<open>IndexError\<close> out of range.
\<close>

fun get_origin :: "ann \<Rightarrow> exn + origin" where
  "get_origin (Generic origin args) = Inr origin"
| "get_origin (Bare origin) = Inr origin"
| "get_origin _ = Inl AttributeError"

fun get_args :: "ann \<Rightarrow> exn + ann list" where
  "get_args (Generic origin args) = Inr args"
| "get_args _ = Inl AttributeError"

definition index :: "'a list \<Rightarrow> nat \<Rightarrow> exn + 'a" where
  "index xs i = (if i < length xs then Inr (xs ! i) else Inl IndexError)"

definition py_assert :: "bool \<Rightarrow> exn + unit" where
  "py_assert b = (if b then Inr () else Inl AssertionError)"

text \<open>
  \<open>isinstance(None, t)\<close>. A subscripted \<open>typing\<close> alias refuses the check with the
  message that \<open>_parse_union\<close> looks for; \<open>Ellipsis\<close> is not a type. (A union never
  has a union among its arguments, \<open>typing\<close> flattens them, so that shape is answered
  like the other subscripted aliases.)
\<close>

fun isinstance_None :: "ann \<Rightarrow> exn + bool" where
  "isinstance_None T_NoneType = Inr True"
| "isinstance_None T_object = Inr True"
| "isinstance_None T_Ellipsis =
     Inl (TypeError ''isinstance() arg 2 must be a type, a tuple of types, or a union'')"
| "isinstance_None (Generic origin args) =
     Inl (TypeError ''Subscripted generics cannot be used with class and instance checks'')"
| "isinstance_None (Bare O_Union) = Inl (TypeError ''typing.Union cannot be used with isinstance()'')"
| "isinstance_None _ = Inr False"

text \<open>
  The text Python prints for an annotation or an origin, in outline (\<open>typing\<close> prints
  some unions as \<open>Optional\<close>, for one). It is used only to build the messages of the
  \<open>TypeError\<close>s below, which \<open>_parse_union\<close> searches for the word
  \<open>Subscripted\<close>; whatever the search finds in a message of \<open>_enforce_array_like\<close>,
  the handler ends with the same error (lemma \<open>parse_union_handler\<close>).
\<close>

fun origin_class :: "origin \<Rightarrow> string" where
  "origin_class O_list = ''list''"
| "origin_class O_tuple = ''tuple''"
| "origin_class O_dict = ''dict''"
| "origin_class O_Sequence = ''collections.abc.Sequence''"
| "origin_class O_Union = ''typing.Union''"
| "origin_class (O_other s) = s"

fun origin_alias :: "origin \<Rightarrow> string" where
  "origin_alias O_list = ''typing.List''"
| "origin_alias O_tuple = ''typing.Tuple''"
| "origin_alias O_dict = ''typing.Dict''"
| "origin_alias O_Sequence = ''typing.Sequence''"
| "origin_alias O_Union = ''typing.Union''"
| "origin_alias (O_other s) = s"

definition str_origin :: "origin \<Rightarrow> string" where
  "str_origin origin =
     (if origin = O_Union then ''typing.Union'' else ''<class '' @ [CHR 0x27] @ origin_class origin @ [CHR 0x27] @ ''>'')"

fun repr_arg :: "ann \<Rightarrow> string" where
  "repr_arg T_bool = ''bool''"
| "repr_arg T_int = ''int''"
| "repr_arg T_str = ''str''"
| "repr_arg T_NoneType = ''NoneType''"
| "repr_arg T_object = ''object''"
| "repr_arg T_empty = ''inspect._empty''"
| "repr_arg (T_class s) = s"
| "repr_arg T_Ellipsis = ''...''"
| "repr_arg (Generic origin args) = origin_alias origin @ ''['' @ join_with '', '' (map repr_arg args) @ '']''"
| "repr_arg (Bare origin) = origin_alias origin"

fun str_ann :: "ann \<Rightarrow> string" where
  "str_ann T_Ellipsis = ''Ellipsis''"
| "str_ann (Generic origin args) = repr_arg (Generic origin args)"
| "str_ann (Bare origin) = repr_arg (Bare origin)"
| "str_ann t = ''<class '' @ [CHR 0x27] @ repr_arg t @ [CHR 0x27] @ ''>''"

section \<open>\<open>_enforce_array_like\<close> and \<open>_parse_union\<close>\<close>

text \<open>
  The body of the \<open>try\<close> block of \<open>_enforce_array_like\<close>, for the second member
  \<open>annotation\<close> of the union. The identity test \<open>is\<close> on type objects is equality of
  annotations. The loop over the arguments of a tuple asserts on every argument, the
  \<open>Ellipsis\<close> of \<open>Tuple[T, ...]\<close> included.
\<close>

fun assert_each :: "ann \<Rightarrow> ann list \<Rightarrow> exn + unit" where
  "assert_each type' [] = Inr ()"
| "assert_each type' (arg # args) =
     (case py_assert (arg = type') of Inl e \<Rightarrow> Inl e | Inr _ \<Rightarrow> assert_each type' args)"

definition enforce_try :: "ann \<Rightarrow> ann \<Rightarrow> string \<Rightarrow> exn + unit" where
  "enforce_try annotation type' name =
     (case get_origin annotation of
        Inl e \<Rightarrow> Inl e
      | Inr origin \<Rightarrow>
          if origin = O_list \<or> origin = O_Sequence then
            (case get_args annotation of
               Inl e \<Rightarrow> Inl e
             | Inr args \<Rightarrow>
                 (case index args 0 of Inl e \<Rightarrow> Inl e | Inr a \<Rightarrow> py_assert (a = type')))
          else if origin = O_dict then
            (case get_args annotation of
               Inl e \<Rightarrow> Inl e
             | Inr args \<Rightarrow>
                 (case index args 1 of Inl e \<Rightarrow> Inl e | Inr a \<Rightarrow> py_assert (a = type')))
          else if origin = O_tuple then
            (case get_args annotation of
               Inl e \<Rightarrow> Inl e
             | Inr args \<Rightarrow> assert_each type' args)
          else
            Inl (TypeError (''Arg '' @ name @ '' has Union of type '' @ str_ann type'
                   @ '' and type '' @ str_ann annotation @ '' with unknown origin ''
                   @ str_origin origin)))"

definition enforce_array_like :: "ann \<Rightarrow> ann \<Rightarrow> string \<Rightarrow> exn + ann" where
  "enforce_array_like annotation type' name =
     (case get_args annotation of
        Inl e \<Rightarrow> Inl e
      | Inr union_args \<Rightarrow>
          (case index union_args 1 of
             Inl e \<Rightarrow> Inl e
           | Inr member \<Rightarrow>
               (case enforce_try member type' name of
                  Inl AttributeError \<Rightarrow>
                    Inl (TypeError (''Arg '' @ name @ '' has Union of types '' @ str_ann type'
                           @ '' and '' @ str_ann member))
                | Inl e \<Rightarrow> Inl e
                | Inr _ \<Rightarrow> Inr member)))"

text \<open>
  The \<open>try\<close> block of \<open>_parse_union\<close>: the \<open>isinstance\<close> test, the check of the
  default (\<open>param.default is not None\<close>, which \<open>inspect._empty\<close> also satisfies), or the
  call of \<open>_enforce_array_like\<close>.
\<close>

definition parse_union_try :: "param \<Rightarrow> ann \<Rightarrow> exn + ann" where
  "parse_union_try p type' =
     (case get_args (p_annotation p) of
        Inl e \<Rightarrow> Inl e
      | Inr union_args \<Rightarrow>
          (case index union_args 1 of
             Inl e \<Rightarrow> Inl e
           | Inr second \<Rightarrow>
               (case isinstance_None second of
                  Inl e \<Rightarrow> Inl e
                | Inr True \<Rightarrow> if p_default p \<noteq> Default V_None then Inl ValueError else Inr type'
                | Inr False \<Rightarrow> enforce_array_like (p_annotation p) type' (p_name p))))"

definition parse_union :: "param \<Rightarrow> exn + ann" where
  "parse_union p =
     (case get_args (p_annotation p) of
        Inl e \<Rightarrow> Inl e
      | Inr union_args \<Rightarrow>
          (case index union_args 0 of
             Inl e \<Rightarrow> Inl e
           | Inr type' \<Rightarrow>
               (case parse_union_try p type' of
                  Inl (TypeError msg) \<Rightarrow>
                    if contains msg ''Subscripted''
                    then enforce_array_like (p_annotation p) type' (p_name p)
                    else Inl (TypeError msg)
                | Inl e \<Rightarrow> Inl e
                | Inr annotation \<Rightarrow> Inr annotation)))"

section \<open>\<open>_get_origin_and_type\<close> and \<open>_parse_array_like\<close>\<close>

definition get_origin_and_type :: "ann \<Rightarrow> origin option \<times> ann option" where
  "get_origin_and_type annotation =
     (case get_origin annotation of
        Inr origin \<Rightarrow> (Some origin, None)
      | Inl _ \<Rightarrow> (None, Some annotation))"

text \<open>
  The keyword arguments that \<open>make_parser\<close> collects for \<open>add_argument\<close>: a dictionary
  with at most these six keys, each absent until it is set. \<open>ONE_OR_MORE\<close> is the name
  \<open>argparse\<close> gives to the string \<open>"+"\<close>; an action's \<open>nargs\<close> is otherwise
  \<open>None\<close> (one token) or \<open>0\<close> (no token).
\<close>

datatype nargs = Nargs_None | ONE_OR_MORE | Nargs_0

datatype action_choice = DictParsingAction_class | store_true | store_false

record kwargs =
  kw_nargs :: "nargs option"
  kw_action :: "action_choice option"
  kw_help :: "string option"
  kw_type :: "ann option"
  kw_required :: "bool option"
  kw_default :: "pyval option"

definition empty_kwargs :: kwargs where
  "empty_kwargs = \<lparr>kw_nargs = None, kw_action = None, kw_help = None, kw_type = None,
                    kw_required = None, kw_default = None\<rparr>"

text \<open>
  For a tuple, the loop over \<open>annotation.__args__[1:]\<close> skips \<open>Ellipsis\<close> and asserts
  that any other argument equals the first.
\<close>

fun assert_tuple_rest :: "ann \<Rightarrow> ann list \<Rightarrow> exn + unit" where
  "assert_tuple_rest type' [] = Inr ()"
| "assert_tuple_rest type' (arg # args) =
     (if arg \<noteq> T_Ellipsis
      then (case py_assert (arg = type') of Inl e \<Rightarrow> Inl e | Inr _ \<Rightarrow> assert_tuple_rest type' args)
      else assert_tuple_rest type' args)"

text \<open>
  \<open>_parse_array_like\<close> returns the element type (or \<open>None\<close> when the annotation has no
  origin) and updates \<open>kwargs\<close> in place; the model returns both.
\<close>

definition parse_array_like :: "ann \<Rightarrow> origin option \<Rightarrow> kwargs \<Rightarrow> exn + (ann option \<times> kwargs)" where
  "parse_array_like annotation origin kw =
     (if origin \<in> {Some O_list, Some O_tuple, Some O_dict, Some O_Sequence} then
        (let kw1 = kw\<lparr>kw_nargs := Some ONE_OR_MORE\<rparr> in
         if origin = Some O_dict then
           (let kw2 = kw1\<lparr>kw_action := Some DictParsingAction_class\<rparr> in
            case get_args annotation of
              Inl e \<Rightarrow> Inl e
            | Inr args \<Rightarrow>
                (case index args 0 of
                   Inl e \<Rightarrow> Inl e
                 | Inr key_type \<Rightarrow>
                     (case py_assert (key_type = T_str) of
                        Inl e \<Rightarrow> Inl e
                      | Inr _ \<Rightarrow>
                          (case index args 1 of
                             Inl e \<Rightarrow> Inl e
                           | Inr type' \<Rightarrow> Inr (Some type', kw2)))))
         else
           (case get_args annotation of
              Inl e \<Rightarrow> Inl e
            | Inr args \<Rightarrow>
                (case index args 0 of
                   Inl e \<Rightarrow> Inl e
                 | Inr type' \<Rightarrow>
                     if origin = Some O_tuple then
                       (case assert_tuple_rest type' (drop 1 args) of
                          Inl e \<Rightarrow> Inl e
                        | Inr _ \<Rightarrow> Inr (Some type', kw1))
                     else Inr (Some type', kw1))))
      else (case origin of
              Some unknown \<Rightarrow>
                Inl (TypeError (''Can'' @ [CHR 0x27] @ ''t help with arg of type '' @ str_origin unknown))
            | None \<Rightarrow> Inr (None, kw)))"

section \<open>The parser of \<open>argparse\<close>: actions and \<open>add_argument\<close>\<close>

text \<open>
  \<open>argparse\<close> belongs to the standard library, not to the module. The model follows
  CPython 3.11 for the part that \<open>make_parser\<close> reaches: a parser whose arguments
  are all optional (\<open>--name\<close>), with the automatic \<open>-h/--help\<close>, prefix characters
  \<open>-\<close>, abbreviations allowed and the conflict handler \<open>error\<close>.
\<close>

datatype action_default = SUPPRESS | Value pyval

datatype action_class =
  StoreAction | StoreTrueAction | StoreFalseAction | DictParsingAction ann | HelpAction

record action =
  a_option_strings :: "string list"
  a_dest :: string
  a_nargs :: nargs
  a_const :: pyval
  a_default :: action_default
  a_type :: "ann option"
  a_required :: bool
  a_help :: "string option"
  a_class :: action_class

record parser =
  parser_prog :: string
  parser_description :: string
  parser_actions :: "action list"

definition help_action :: action where
  "help_action =
     \<lparr>a_option_strings = [''-h'', ''--help''], a_dest = ''help'', a_nargs = Nargs_0,
      a_const = V_None, a_default = SUPPRESS, a_type = None, a_required = False,
      a_help = Some ''show this help message and exit'', a_class = HelpAction\<rparr>"

definition ArgumentParser :: "string \<Rightarrow> string \<Rightarrow> parser" where
  "ArgumentParser prog description =
     \<lparr>parser_prog = prog, parser_description = description, parser_actions = [help_action]\<rparr>"

text \<open>
  \<open>_get_optional_kwargs\<close>: the destination is the option string without its leading
  dashes (\<open>lstrip\<close> removes all of them), with the remaining dashes turned into
  underscores; an option string made of dashes only is refused.
\<close>

definition infer_dest :: "string \<Rightarrow> exn + string" where
  "infer_dest option_string =
     (let dest = dropWhile (\<lambda>c. c = CHR ''-'') option_string
      in if dest = [] then Inl ValueError
         else Inr (replace_char (CHR ''-'') (CHR ''_'') dest))"

definition or_else :: "'a option \<Rightarrow> 'a \<Rightarrow> 'a" where
  "or_else x d = (case x of None \<Rightarrow> d | Some v \<Rightarrow> v)"

text \<open>
  The constructors of the action classes. \<open>_StoreTrueAction\<close> and
  \<open>_StoreFalseAction\<close> take no \<open>nargs\<close> and no \<open>type\<close>; \<open>_DictParsingAction\<close>
  reads \<open>kwargs["type"]\<close>, keeps it as \<open>_type\<close> and hands \<open>str\<close> to \<open>Action\<close>.
\<close>

definition unexpected_keyword :: "string \<Rightarrow> kwargs \<Rightarrow> exn" where
  "unexpected_keyword cls kw =
     TypeError (cls @ ''.__init__() got an unexpected keyword argument ''
                @ (if kw_nargs kw \<noteq> None then [CHR 0x27] @ ''nargs'' @ [CHR 0x27]
                   else [CHR 0x27] @ ''type'' @ [CHR 0x27]))"

definition make_action :: "string \<Rightarrow> string \<Rightarrow> kwargs \<Rightarrow> exn + action" where
  "make_action flag dest kw =
     (case kw_action kw of
        None \<Rightarrow>
          if kw_nargs kw = Some Nargs_0 then Inl ValueError
          else Inr \<lparr>a_option_strings = [flag], a_dest = dest,
                    a_nargs = or_else (kw_nargs kw) Nargs_None, a_const = V_None,
                    a_default = Value (or_else (kw_default kw) V_None), a_type = kw_type kw,
                    a_required = or_else (kw_required kw) False, a_help = kw_help kw,
                    a_class = StoreAction\<rparr>
      | Some store_true \<Rightarrow>
          if kw_nargs kw \<noteq> None \<or> kw_type kw \<noteq> None
          then Inl (unexpected_keyword ''_StoreTrueAction'' kw)
          else Inr \<lparr>a_option_strings = [flag], a_dest = dest, a_nargs = Nargs_0,
                    a_const = V_bool True,
                    a_default = Value (or_else (kw_default kw) (V_bool False)), a_type = None,
                    a_required = or_else (kw_required kw) False, a_help = kw_help kw,
                    a_class = StoreTrueAction\<rparr>
      | Some store_false \<Rightarrow>
          if kw_nargs kw \<noteq> None \<or> kw_type kw \<noteq> None
          then Inl (unexpected_keyword ''_StoreFalseAction'' kw)
          else Inr \<lparr>a_option_strings = [flag], a_dest = dest, a_nargs = Nargs_0,
                    a_const = V_bool False,
                    a_default = Value (or_else (kw_default kw) (V_bool True)), a_type = None,
                    a_required = or_else (kw_required kw) False, a_help = kw_help kw,
                    a_class = StoreFalseAction\<rparr>
      | Some DictParsingAction_class \<Rightarrow>
          (case kw_type kw of
             None \<Rightarrow> Inl KeyError
           | Some type' \<Rightarrow>
               Inr \<lparr>a_option_strings = [flag], a_dest = dest,
                    a_nargs = or_else (kw_nargs kw) Nargs_None, a_const = V_None,
                    a_default = Value (or_else (kw_default kw) V_None), a_type = Some T_str,
                    a_required = or_else (kw_required kw) False, a_help = kw_help kw,
                    a_class = DictParsingAction type'\<rparr>))"

text \<open>\<open>callable(t)\<close>: classes and \<open>typing\<close> aliases are callable, \<open>Ellipsis\<close> is not.\<close>

definition callable_type :: "ann \<Rightarrow> bool" where
  "callable_type t = (t \<noteq> T_Ellipsis)"

definition option_strings_of :: "parser \<Rightarrow> string list" where
  "option_strings_of parser = concat (map a_option_strings (parser_actions parser))"

text \<open>
  \<open>parser.add_argument(flag, **kwargs)\<close> for a flag that starts with a dash, which is
  the only call \<open>make_parser\<close> makes: the destination, the action object, the check
  that the type is callable, the check for a conflicting option string.
\<close>

definition add_argument :: "parser \<Rightarrow> string \<Rightarrow> kwargs \<Rightarrow> exn + parser" where
  "add_argument parser flag kw =
     (case infer_dest flag of
        Inl e \<Rightarrow> Inl e
      | Inr dest \<Rightarrow>
          (case make_action flag dest kw of
             Inl e \<Rightarrow> Inl e
           | Inr action \<Rightarrow>
               if \<not> (case a_type action of None \<Rightarrow> True | Some t \<Rightarrow> callable_type t)
               then Inl ValueError
               else if \<exists>s \<in> set (a_option_strings action). s \<in> set (option_strings_of parser)
               then Inl ArgumentError
               else Inr (parser\<lparr>parser_actions := parser_actions parser @ [action]\<rparr>)))"

section \<open>\<open>make_parser\<close>\<close>

text \<open>
  The split of the documentation into description and arguments section. Unpacking the
  result of \<open>split\<close> into two names raises \<open>ValueError\<close> unless there are exactly two
  pieces; the source catches it in both places.
\<close>

definition doc_and_args :: "string option \<Rightarrow> string \<times> string" where
  "doc_and_args doc =
     (case doc of
        None \<Rightarrow> ([], [])
      | Some d \<Rightarrow>
          (case split_str (''Args:'' @ [newline]) d of
             [doc', args] \<Rightarrow>
               (case split_str (''Returns:'' @ [newline]) args of
                  [args', _] \<Rightarrow> (doc', args')
                | _ \<Rightarrow> (doc', args))
           | _ \<Rightarrow> (d, [])))"

text \<open>Truth value of a Python object, for \<open>not param.default\<close>.\<close>

fun truthy :: "pyval \<Rightarrow> bool" where
  "truthy V_None = False"
| "truthy (V_bool b) = b"
| "truthy (V_int i) = (i \<noteq> 0)"
| "truthy (V_str s) = (s \<noteq> [])"
| "truthy (V_list xs) = (xs \<noteq> [])"
| "truthy (V_dict d) = (d \<noteq> [])"

text \<open>
  The body of the loop over the parameters, up to the call of \<open>add_argument\<close>: the
  keyword arguments built for one parameter. \<open>args\<close> is the arguments section of the
  documentation.
\<close>

definition argument_kwargs :: "string \<Rightarrow> param \<Rightarrow> exn + kwargs" where
  "argument_kwargs args p =
     (let annotation = p_annotation p;
          (origin, type') = get_origin_and_type annotation
      in case (if origin = Some O_Union
               then (case parse_union p of
                       Inl e \<Rightarrow> Inl e
                     | Inr annotation' \<Rightarrow> Inr (annotation', get_origin_and_type annotation'))
               else Inr (annotation, origin, type')) of
           Inl e \<Rightarrow> Inl e
         | Inr (annotation, origin, type') \<Rightarrow>
             (case parse_array_like annotation origin empty_kwargs of
                Inl e \<Rightarrow> Inl e
              | Inr (element, kw) \<Rightarrow>
                  (let type' = (case element of Some t \<Rightarrow> Some t | None \<Rightarrow> type');
                       kw = kw\<lparr>kw_help := Some (parse_help args (p_name p))\<rparr>
                   in if type' = Some T_bool then
                        (case p_default p of
                           Empty \<Rightarrow> Inr (kw\<lparr>kw_action := Some store_true\<rparr>)
                         | Default d \<Rightarrow>
                             Inr (kw\<lparr>kw_action := Some (if \<not> truthy d then store_true else store_false)\<rparr>))
                      else
                        (let kw = kw\<lparr>kw_type := type'\<rparr>
                         in case p_default p of
                              Empty \<Rightarrow> Inr (kw\<lparr>kw_required := Some True\<rparr>)
                            | Default d \<Rightarrow> Inr (kw\<lparr>kw_default := Some d\<rparr>)))))"

definition flag_of :: "string \<Rightarrow> string" where
  "flag_of name = ''--'' @ replace_char (CHR ''_'') (CHR ''-'') name"

fun make_parser_loop :: "string \<Rightarrow> param list \<Rightarrow> parser \<Rightarrow> exn + parser" where
  "make_parser_loop args [] parser = Inr parser"
| "make_parser_loop args (p # ps) parser =
     (case argument_kwargs args p of
        Inl e \<Rightarrow> Inl e
      | Inr kw \<Rightarrow>
          (case add_argument parser (flag_of (p_name p)) kw of
             Inl e \<Rightarrow> Inl e
           | Inr parser' \<Rightarrow> make_parser_loop args ps parser'))"

definition make_parser :: "callable \<Rightarrow> string option \<Rightarrow> exn + parser" where
  "make_parser f prog =
     (let (doc, args) = doc_and_args (f_doc f);
          parser = ArgumentParser
                     (case prog of None \<Rightarrow> f_name f | Some s \<Rightarrow> if s = [] then f_name f else s)
                     (rstrip doc)
      in make_parser_loop args (parameters f) parser)"

section \<open>\<open>_DictParsingAction.__call__\<close>\<close>

text \<open>
  The namespace and a Python \<open>dict\<close> are association lists in insertion order;
  \<open>setattr\<close> and \<open>d[k] = v\<close> replace the value of a key that is present and append a
  new key otherwise. \<open>str(s)\<close> is \<open>s\<close>; every other type object is applied through
  the parameter.
\<close>

type_synonym namespace = "(string \<times> pyval) list"

definition setattr :: "namespace \<Rightarrow> string \<Rightarrow> pyval \<Rightarrow> namespace" where
  "setattr namespace dest v = AList.update dest v namespace"

definition call_type :: "coerce \<Rightarrow> ann \<Rightarrow> string \<Rightarrow> exn + pyval" where
  "call_type co t s = (if t = T_str then Inr (V_str s) else co t s)"

text \<open>
  The loop over \<open>values\<close>. \<open>k, v = value.split("=")\<close> splits at every separator and
  unpacks into exactly two names, so a token with no separator or with more than one
  raises \<open>ValueError\<close>.
\<close>

fun dict_loop :: "(string \<Rightarrow> exn + pyval) \<Rightarrow> string list \<Rightarrow> (string \<times> pyval) list
    \<Rightarrow> exn + (string \<times> pyval) list" where
  "dict_loop type' [] dict_value = Inr dict_value"
| "dict_loop type' (value # values) dict_value =
     (case split_str ''='' value of
        [k, v] \<Rightarrow>
          (case type' v of
             Inl e \<Rightarrow> Inl e
           | Inr x \<Rightarrow> dict_loop type' values (AList.update k x dict_value))
      | _ \<Rightarrow> Inl ValueError)"

definition DictParsingAction_call ::
    "(string \<Rightarrow> exn + pyval) \<Rightarrow> string \<Rightarrow> namespace \<Rightarrow> string list \<Rightarrow> exn + namespace" where
  "DictParsingAction_call type' dest namespace values =
     (if length values = 1 \<and> \<not> contains (hd values) ''='' then
        (case type' (hd values) of
           Inl e \<Rightarrow> Inl e
         | Inr x \<Rightarrow> Inr (setattr namespace dest x))
      else
        (case dict_loop type' values [] of
           Inl e \<Rightarrow> Inl e
         | Inr dict_value \<Rightarrow> Inr (setattr namespace dest (V_dict dict_value))))"

section \<open>\<open>parse_args\<close>\<close>

text \<open>
  An option tuple of \<open>_parse_optional\<close>: the action (with its position in the parser,
  which stands for the identity of the object), the option string, the separator and the
  explicit argument. The pattern of an argument string is \<open>A\<close>, \<open>-\<close> or \<open>O\<close>.
\<close>

type_synonym option_tuple = "(nat \<times> action) option \<times> string \<times> string option \<times> string option"

datatype arg_pattern = Pat_A | Pat_dash | Pat_O option_tuple

definition option_string_actions :: "parser \<Rightarrow> (string \<times> nat \<times> action) list" where
  "option_string_actions parser =
     concat (map (\<lambda>(i, a). map (\<lambda>s. (s, i, a)) (a_option_strings a))
                 (enumerate 0 (parser_actions parser)))"

text \<open>\<open>s.partition("=")\<close>.\<close>

definition partition_eq :: "string \<Rightarrow> string \<times> string \<times> string" where
  "partition_eq s =
     (let rest = dropWhile (\<lambda>c. c \<noteq> CHR ''='') s
      in if rest = [] then (s, [], [])
         else (takeWhile (\<lambda>c. c \<noteq> CHR ''='') s, ''='', tl rest))"

definition is_digit :: "char \<Rightarrow> bool" where
  "is_digit c = (c \<in> set ''0123456789'')"

text \<open>
  The negative number matcher, the regular expression \<open>^-\d+$|^-\d*\.\d+$\<close> applied
  with \<open>match\<close>: \<open>$\<close> also matches before a final line feed.
\<close>

definition negative_number :: "string \<Rightarrow> bool" where
  "negative_number s =
     (case s of
        [] \<Rightarrow> False
      | c # rest \<Rightarrow>
          c = CHR ''-'' \<and>
          (let body = (if rest \<noteq> [] \<and> last rest = newline then butlast rest else rest);
               whole = takeWhile is_digit body;
               after = dropWhile is_digit body
           in (body \<noteq> [] \<and> after = []) \<or>
              (after \<noteq> [] \<and> hd after = CHR ''.'' \<and> tl after \<noteq> [] \<and> list_all is_digit (tl after))))"

definition second_is_dash :: "string \<Rightarrow> bool" where
  "second_is_dash s = (1 < length s \<and> s ! 1 = CHR ''-'')"

text \<open>
  \<open>_get_option_tuples\<close>, called on a string of at least two characters that starts with
  a dash: the abbreviations of long options, or a short option with its argument attached.
\<close>

definition get_option_tuples :: "parser \<Rightarrow> string \<Rightarrow> option_tuple list" where
  "get_option_tuples parser option_string =
     (if second_is_dash option_string then
        (let (option_prefix, sep, explicit_arg) = partition_eq option_string
         in concat (map (\<lambda>(s, ia).
                      if startswith s option_prefix
                      then [(Some ia, s, if sep = [] then None else Some sep,
                             if sep = [] then None else Some explicit_arg)]
                      else [])
                    (option_string_actions parser)))
      else
        (let option_prefix = option_string;
             short_option_prefix = take 2 option_string;
             short_explicit_arg = drop 2 option_string
         in concat (map (\<lambda>(s, ia).
                      if s = short_option_prefix then [(Some ia, s, Some [], Some short_explicit_arg)]
                      else if startswith s option_prefix then [(Some ia, s, None, None)]
                      else [])
                    (option_string_actions parser))))"

text \<open>\<open>_parse_optional\<close>: \<open>None\<close> for a positional argument string.\<close>

definition parse_optional :: "parser \<Rightarrow> string \<Rightarrow> exn + option_tuple option" where
  "parse_optional parser arg_string =
     (if arg_string = [] then Inr None
      else if hd arg_string \<noteq> CHR ''-'' then Inr None
      else case map_of (option_string_actions parser) arg_string of
             Some ia \<Rightarrow> Inr (Some (Some ia, arg_string, None, None))
           | None \<Rightarrow>
               if length arg_string = 1 then Inr None
               else
                 (let (option_string, sep, explicit_arg) = partition_eq arg_string
                  in case (if sep \<noteq> [] then map_of (option_string_actions parser) option_string
                           else None) of
                       Some ia \<Rightarrow> Inr (Some (Some ia, option_string, Some sep, Some explicit_arg))
                     | None \<Rightarrow>
                         (let option_tuples = get_option_tuples parser arg_string
                          in if 1 < length option_tuples then Inl (SystemExit 2)
                             else if length option_tuples = 1 then Inr (Some (hd option_tuples))
                             else if negative_number arg_string then Inr None
                             else if CHR '' '' \<in> set arg_string then Inr None
                             else Inr (Some (None, arg_string, None, None)))))"

text \<open>
  The first pass over the argument strings: everything after \<open>--\<close> is an argument.
  An ambiguous abbreviation ends the parse here, before any action runs.
\<close>

fun classify :: "parser \<Rightarrow> string list \<Rightarrow> exn + (string \<times> arg_pattern) list" where
  "classify parser [] = Inr []"
| "classify parser (arg_string # arg_strings) =
     (if arg_string = ''--''
      then Inr ((arg_string, Pat_dash) # map (\<lambda>s. (s, Pat_A)) arg_strings)
      else case parse_optional parser arg_string of
             Inl e \<Rightarrow> Inl e
           | Inr option_tuple \<Rightarrow>
               (case classify parser arg_strings of
                  Inl e \<Rightarrow> Inl e
                | Inr rest \<Rightarrow>
                    Inr ((arg_string, case option_tuple of None \<Rightarrow> Pat_A | Some t \<Rightarrow> Pat_O t) # rest)))"

text \<open>
  \<open>_get_value\<close> and \<open>_get_values\<close>. A \<open>TypeError\<close> or \<open>ValueError\<close> of the type
  becomes an \<open>ArgumentError\<close>, which \<open>parse_known_args\<close> turns into the usage message
  and exit status 2; any other exception passes through.
\<close>

definition get_value :: "coerce \<Rightarrow> action \<Rightarrow> string \<Rightarrow> exn + pyval" where
  "get_value co action arg_string =
     (case a_type action of
        None \<Rightarrow> Inr (V_str arg_string)
      | Some t \<Rightarrow>
          (case call_type co t arg_string of
             Inl (TypeError m) \<Rightarrow> Inl (SystemExit 2)
           | Inl ValueError \<Rightarrow> Inl (SystemExit 2)
           | Inl e \<Rightarrow> Inl e
           | Inr v \<Rightarrow> Inr v))"

fun get_value_list :: "coerce \<Rightarrow> action \<Rightarrow> string list \<Rightarrow> exn + pyval list" where
  "get_value_list co action [] = Inr []"
| "get_value_list co action (v # vs) =
     (case get_value co action v of
        Inl e \<Rightarrow> Inl e
      | Inr x \<Rightarrow> (case get_value_list co action vs of Inl e \<Rightarrow> Inl e | Inr xs \<Rightarrow> Inr (x # xs)))"

definition get_values :: "coerce \<Rightarrow> action \<Rightarrow> string list \<Rightarrow> exn + pyval" where
  "get_values co action arg_strings =
     (if length arg_strings = 1 \<and> a_nargs action = Nargs_None
      then get_value co action (hd arg_strings)
      else case get_value_list co action arg_strings of
             Inl e \<Rightarrow> Inl e
           | Inr vs \<Rightarrow> Inr (V_list vs))"

text \<open>
  Calling the action object. The values handed to \<open>_DictParsingAction\<close> were converted
  with \<open>str\<close>, so they are the argument strings themselves. The help action prints and
  exits with status 0.
\<close>

definition call_action ::
    "coerce \<Rightarrow> action \<Rightarrow> namespace \<Rightarrow> string list \<Rightarrow> pyval \<Rightarrow> exn + namespace" where
  "call_action co action namespace arg_strings values =
     (case a_class action of
        StoreAction \<Rightarrow> Inr (setattr namespace (a_dest action) values)
      | StoreTrueAction \<Rightarrow> Inr (setattr namespace (a_dest action) (a_const action))
      | StoreFalseAction \<Rightarrow> Inr (setattr namespace (a_dest action) (a_const action))
      | DictParsingAction t \<Rightarrow>
          DictParsingAction_call (call_type co t) (a_dest action) namespace arg_strings
      | HelpAction \<Rightarrow> Inl (SystemExit 0))"

record pstate =
  ps_namespace :: namespace
  ps_seen :: "nat list"
  ps_extras :: "string list"

definition take_action ::
    "coerce \<Rightarrow> (nat \<times> action) \<Rightarrow> string list \<Rightarrow> pstate \<Rightarrow> exn + pstate" where
  "take_action co ia argument_strings st =
     (case get_values co (snd ia) argument_strings of
        Inl e \<Rightarrow> Inl e
      | Inr argument_values \<Rightarrow>
          (case call_action co (snd ia) (ps_namespace st) argument_strings argument_values of
             Inl e \<Rightarrow> Inl e
           | Inr namespace \<Rightarrow>
               Inr (st\<lparr>ps_namespace := namespace, ps_seen := fst ia # ps_seen st\<rparr>)))"

fun take_actions ::
    "coerce \<Rightarrow> ((nat \<times> action) \<times> string list) list \<Rightarrow> pstate \<Rightarrow> exn + pstate" where
  "take_actions co [] st = Inr st"
| "take_actions co ((ia, args) # action_tuples) st =
     (case take_action co ia args st of
        Inl e \<Rightarrow> Inl e
      | Inr st' \<Rightarrow> take_actions co action_tuples st')"

text \<open>
  \<open>_match_argument\<close> on the patterns that follow an option: one \<open>A\<close> for
  \<open>nargs=None\<close>, the longest run of \<open>A\<close> (at least one) for \<open>"+"\<close>, nothing for
  \<open>nargs=0\<close>. A failed match is an \<open>ArgumentError\<close>, hence exit status 2.
\<close>

definition match_argument :: "action \<Rightarrow> arg_pattern list \<Rightarrow> exn + nat" where
  "match_argument action patterns =
     (case a_nargs action of
        Nargs_None \<Rightarrow> (case patterns of Pat_A # _ \<Rightarrow> Inr 1 | _ \<Rightarrow> Inl (SystemExit 2))
      | ONE_OR_MORE \<Rightarrow>
          (let n = length (takeWhile (\<lambda>p. p = Pat_A) patterns)
           in if 1 \<le> n then Inr n else Inl (SystemExit 2))
      | Nargs_0 \<Rightarrow> Inr 0)"

text \<open>
  The \<open>while True\<close> loop of \<open>consume_optional\<close> while there is an explicit argument
  (\<open>--x=1\<close>, \<open>-hx\<close>). It ends with the action tuples collected and either nothing more
  to match (\<open>Stop\<close>, possibly with an extra string), or an action whose arguments are
  the strings that follow (\<open>Follow\<close>).
\<close>

datatype loop_result =
    Stop "((nat \<times> action) \<times> string list) list" "string list"
  | Follow "((nat \<times> action) \<times> string list) list" "nat \<times> action"

function explicit_loop ::
    "parser \<Rightarrow> (nat \<times> action) \<Rightarrow> string \<Rightarrow> string option \<Rightarrow> string
      \<Rightarrow> ((nat \<times> action) \<times> string list) list \<Rightarrow> exn + loop_result" where
  "explicit_loop parser ia option_string sep explicit_arg action_tuples =
     (if a_nargs (snd ia) = Nargs_0 \<and> \<not> second_is_dash option_string \<and> explicit_arg \<noteq> [] then
        (if (sep \<noteq> None \<and> sep \<noteq> Some []) \<or> hd explicit_arg = CHR ''-'' then Inl (SystemExit 2)
         else
           (let action_tuples' = action_tuples @ [(ia, [])];
                option_string' = [hd option_string, hd explicit_arg]
            in case map_of (option_string_actions parser) option_string' of
                 Some ia' \<Rightarrow>
                   if tl explicit_arg = [] then Inr (Follow action_tuples' ia')
                   else if hd (tl explicit_arg) = CHR ''=''
                   then explicit_loop parser ia' option_string' (Some ''='') (tl (tl explicit_arg))
                          action_tuples'
                   else explicit_loop parser ia' option_string' (Some []) (tl explicit_arg)
                          action_tuples'
               | None \<Rightarrow> Inr (Stop action_tuples' [hd option_string # explicit_arg])))
      else if a_nargs (snd ia) \<noteq> Nargs_0 then Inr (Stop (action_tuples @ [(ia, [explicit_arg])]) [])
      else Inl (SystemExit 2))"
  by pat_completeness auto
termination
  by (relation "measure (\<lambda>(parser, ia, option_string, sep, explicit_arg, action_tuples).
                           length explicit_arg)") auto

text \<open>
  The equation of \<open>explicit_loop\<close> rewrites the function in terms of itself, so it is
  unfolded by hand in the proofs.
\<close>

declare explicit_loop.simps [simp del]

text \<open>
  \<open>consume_optional\<close>: the state after the actions of one option string ran, and the
  number of following argument strings it consumed.
\<close>

definition consume_optional ::
    "coerce \<Rightarrow> parser \<Rightarrow> option_tuple \<Rightarrow> string \<Rightarrow> (string \<times> arg_pattern) list \<Rightarrow> pstate
      \<Rightarrow> exn + (pstate \<times> nat)" where
  "consume_optional co parser option_tuple arg_string following st =
     (case option_tuple of
        (None, option_string, sep, explicit_arg) \<Rightarrow>
          Inr (st\<lparr>ps_extras := ps_extras st @ [arg_string]\<rparr>, 0)
      | (Some ia, option_string, sep, explicit_arg) \<Rightarrow>
          (case (case explicit_arg of
                   None \<Rightarrow> Inr (Follow [] ia)
                 | Some e \<Rightarrow> explicit_loop parser ia option_string sep e []) of
             Inl e \<Rightarrow> Inl e
           | Inr (Stop action_tuples extras) \<Rightarrow>
               (case take_actions co action_tuples (st\<lparr>ps_extras := ps_extras st @ extras\<rparr>) of
                  Inl e \<Rightarrow> Inl e
                | Inr st' \<Rightarrow> Inr (st', 0))
           | Inr (Follow action_tuples ia') \<Rightarrow>
               (case match_argument (snd ia') (map snd following) of
                  Inl e \<Rightarrow> Inl e
                | Inr arg_count \<Rightarrow>
                    (case take_actions co
                            (action_tuples @ [(ia', take arg_count (map fst following))]) st of
                       Inl e \<Rightarrow> Inl e
                     | Inr st' \<Rightarrow> Inr (st', arg_count)))))"

text \<open>
  The main loop of \<open>_parse_known_args\<close> for a parser without positional arguments:
  every argument string that no option consumes is an extra.
\<close>

function consume ::
    "coerce \<Rightarrow> parser \<Rightarrow> (string \<times> arg_pattern) list \<Rightarrow> pstate \<Rightarrow> exn + pstate" where
  "consume co parser [] st = Inr st"
| "consume co parser ((arg_string, pattern) # following) st =
     (case pattern of
        Pat_O option_tuple \<Rightarrow>
          (case consume_optional co parser option_tuple arg_string following st of
             Inl e \<Rightarrow> Inl e
           | Inr (st', arg_count) \<Rightarrow> consume co parser (drop arg_count following) st')
      | _ \<Rightarrow> consume co parser following (st\<lparr>ps_extras := ps_extras st @ [arg_string]\<rparr>))"
  by pat_completeness auto
termination
  by (relation "measure (\<lambda>(co, parser, patterns, st). length patterns)") auto

text \<open>
  The namespace before parsing: the default of every action whose destination is not set
  yet (the help action has the default \<open>SUPPRESS\<close> and sets nothing).
\<close>

definition hasattr :: "namespace \<Rightarrow> string \<Rightarrow> bool" where
  "hasattr namespace dest = (map_of namespace dest \<noteq> None)"

fun initial_namespace :: "action list \<Rightarrow> namespace \<Rightarrow> namespace" where
  "initial_namespace [] namespace = namespace"
| "initial_namespace (action # actions) namespace =
     initial_namespace actions
       (case a_default action of
          SUPPRESS \<Rightarrow> namespace
        | Value d \<Rightarrow>
            if hasattr namespace (a_dest action) then namespace
            else setattr namespace (a_dest action) d)"

text \<open>
  After the loop: an action that was not seen is reported when it is required;
  otherwise a default that is a string, and still the value in the namespace, is converted
  with the type of the action. (The identity test \<open>is\<close> of the source is equality here.)
  The result is the namespace and whether a required action is missing.
\<close>

fun unseen_actions ::
    "coerce \<Rightarrow> (nat \<times> action) list \<Rightarrow> nat list \<Rightarrow> namespace \<Rightarrow> bool \<Rightarrow> exn + (namespace \<times> bool)" where
  "unseen_actions co [] seen namespace missing = Inr (namespace, missing)"
| "unseen_actions co ((i, action) # actions) seen namespace missing =
     (if i \<in> set seen then unseen_actions co actions seen namespace missing
      else if a_required action then unseen_actions co actions seen namespace True
      else case a_default action of
             Value (V_str s) \<Rightarrow>
               if map_of namespace (a_dest action) = Some (V_str s)
               then (case get_value co action s of
                       Inl e \<Rightarrow> Inl e
                     | Inr v \<Rightarrow>
                         unseen_actions co actions seen (setattr namespace (a_dest action) v) missing)
               else unseen_actions co actions seen namespace missing
           | _ \<Rightarrow> unseen_actions co actions seen namespace missing)"

definition parse_known_args ::
    "coerce \<Rightarrow> parser \<Rightarrow> string list \<Rightarrow> exn + (namespace \<times> string list)" where
  "parse_known_args co parser args =
     (let namespace = initial_namespace (parser_actions parser) []
      in case classify parser args of
           Inl e \<Rightarrow> Inl e
         | Inr patterns \<Rightarrow>
             (case consume co parser patterns
                     \<lparr>ps_namespace = namespace, ps_seen = [], ps_extras = []\<rparr> of
                Inl e \<Rightarrow> Inl e
              | Inr st \<Rightarrow>
                  (case unseen_actions co (enumerate 0 (parser_actions parser)) (ps_seen st)
                          (ps_namespace st) False of
                     Inl e \<Rightarrow> Inl e
                   | Inr (namespace', missing) \<Rightarrow>
                       if missing then Inl (SystemExit 2)
                       else Inr (namespace', ps_extras st))))"

definition parse_args :: "coerce \<Rightarrow> parser \<Rightarrow> string list \<Rightarrow> exn + namespace" where
  "parse_args co parser args =
     (case parse_known_args co parser args of
        Inl e \<Rightarrow> Inl e
      | Inr (namespace, argv) \<Rightarrow> if argv \<noteq> [] then Inl (SystemExit 2) else Inr namespace)"

section \<open>\<open>typeo\<close> and the wrapper\<close>

text \<open>
  The wrapped callable is a function of its positional and keyword arguments; its result
  type is arbitrary, so whatever the callable does (raising included) is a value of that
  type. \<open>sys_argv\<close> is the process argument vector, of which \<open>parse_args\<close> reads
  \<open>sys.argv[1:]\<close>. \<open>Inl\<close> means that parsing raised and the callable was not called.
\<close>

definition wrapper ::
    "coerce \<Rightarrow> parser \<Rightarrow> (pyval list \<Rightarrow> (string \<times> pyval) list \<Rightarrow> 'r) \<Rightarrow> string list
      \<Rightarrow> pyval list \<Rightarrow> (string \<times> pyval) list \<Rightarrow> exn + 'r" where
  "wrapper co parser f sys_argv args kwargs =
     (if length args = length kwargs \<and> length kwargs = 0 then
        (case parse_args co parser (drop 1 sys_argv) of
           Inl e \<Rightarrow> Inl e
         | Inr namespace \<Rightarrow> Inr (f args namespace))
      else Inr (f args kwargs))"

text \<open>
  The two shapes of the decorator: \<open>@typeo\<close> on the callable itself, and
  \<open>@typeo(...)\<close> with the arguments of \<open>make_parser\<close> (the program name), which
  returns \<open>wrapperwrapper\<close>. \<open>meta\<close> is what \<open>make_parser\<close> reads of the callable.
\<close>

definition typeo ::
    "coerce \<Rightarrow> callable \<Rightarrow> (pyval list \<Rightarrow> (string \<times> pyval) list \<Rightarrow> 'r)
      \<Rightarrow> exn + (string list \<Rightarrow> pyval list \<Rightarrow> (string \<times> pyval) list \<Rightarrow> exn + 'r)" where
  "typeo co meta f =
     (case make_parser meta None of
        Inl e \<Rightarrow> Inl e
      | Inr parser \<Rightarrow> Inr (wrapper co parser f))"

definition wrapperwrapper ::
    "coerce \<Rightarrow> string option \<Rightarrow> callable \<Rightarrow> (pyval list \<Rightarrow> (string \<times> pyval) list \<Rightarrow> 'r)
      \<Rightarrow> exn + (string list \<Rightarrow> pyval list \<Rightarrow> (string \<times> pyval) list \<Rightarrow> exn + 'r)" where
  "wrapperwrapper co prog meta f =
     (case make_parser meta prog of
        Inl e \<Rightarrow> Inl e
      | Inr parser \<Rightarrow> Inr (wrapper co parser f))"

section \<open>The builtin types of the examples\<close>

text \<open>
  \<open>int(s)\<close> on ASCII text: surrounding whitespace, an optional sign, decimal digits with
  single underscores between them.
\<close>

definition valid_int_body :: "string \<Rightarrow> bool" where
  "valid_int_body b =
     (b \<noteq> [] \<and> list_all (\<lambda>c. is_digit c \<or> c = CHR ''_'') b \<and> hd b \<noteq> CHR ''_''
      \<and> last b \<noteq> CHR ''_'' \<and> \<not> contains b ''__'')"

definition digits_value :: "string \<Rightarrow> int" where
  "digits_value b = foldl (\<lambda>acc c. 10 * acc + (int (of_char c) - 48)) 0 (filter is_digit b)"

definition py_int :: "string \<Rightarrow> exn + pyval" where
  "py_int s =
     (let t = strip s;
          negative = (t \<noteq> [] \<and> hd t = CHR ''-'');
          body = (if t \<noteq> [] \<and> (hd t = CHR ''-'' \<or> hd t = CHR ''+'') then tl t else t)
      in if valid_int_body body
         then Inr (V_int (if negative then - digits_value body else digits_value body))
         else Inl ValueError)"

text \<open>
  The call of a type object on a token, for the examples: \<open>str\<close>, \<open>int\<close> and
  \<open>bool\<close>. The other type objects of the model (\<open>typing\<close> aliases, \<open>NoneType\<close>,
  \<open>object\<close>, \<open>inspect._empty\<close>) refuse a string argument with a \<open>TypeError\<close>, whose
  message is left out; a user class is not part of the examples.
\<close>

definition py_call_type :: coerce where
  "py_call_type t s =
     (if t = T_str then Inr (V_str s)
      else if t = T_int then py_int s
      else if t = T_bool then Inr (V_bool (s \<noteq> []))
      else Inl (TypeError []))"

section \<open>Notions used to state the properties\<close>

text \<open>
  The two parts of a token \<open>key=value\<close> around its first separator, and the entry the
  specification asks for: the token split at the first separator, with a key that is not
  empty (\<open>None\<close> where the specification has a parse error).
\<close>

definition entry_key :: "string \<Rightarrow> string" where
  "entry_key token = fst (partition_eq token)"

definition entry_value :: "string \<Rightarrow> string" where
  "entry_value token = snd (snd (partition_eq token))"

definition spec_split_entry :: "string \<Rightarrow> (string \<times> string) option" where
  "spec_split_entry token =
     (if CHR ''='' \<notin> set token \<or> entry_key token = [] then None
      else Some (entry_key token, entry_value token))"


section \<open>Notions used in the proofs about \<open>parse_args\<close>\<close>












section \<open>Examples used by the witnesses\<close>

text \<open>
  Callables and parameters of the examples: a callable \<open>f\<close> whose parameters are the
  variadic \<open>*args\<close> and \<open>**kwargs\<close>,
  \<open>def f(xs: List[List[int]])\<close>, \<open>def f(_x: int)\<close>, a parameter
  \<open>n: Optional[int]\<close> with a given default, a parameter
  \<open>x: Union[int, Tuple[int, ...]]\<close>, and the \<open>adder\<close> of the documentation of
  \<open>typeo\<close>.
\<close>

definition variadic_callable :: callable where
  "variadic_callable =
     \<lparr>f_name = ''f'', f_doc = None,
      parameters =
        [\<lparr>p_name = ''args'', p_kind = VAR_POSITIONAL, p_annotation = T_empty, p_default = Empty\<rparr>,
         \<lparr>p_name = ''kwargs'', p_kind = VAR_KEYWORD, p_annotation = T_empty, p_default = Empty\<rparr>]\<rparr>"

definition nested_callable :: callable where
  "nested_callable =
     \<lparr>f_name = ''f'', f_doc = None,
      parameters =
        [\<lparr>p_name = ''xs'', p_kind = POSITIONAL_OR_KEYWORD,
          p_annotation = Generic O_list [Generic O_list [T_int]], p_default = Empty\<rparr>]\<rparr>"

definition underscore_callable :: callable where
  "underscore_callable =
     \<lparr>f_name = ''f'', f_doc = None,
      parameters =
        [\<lparr>p_name = ''_x'', p_kind = POSITIONAL_OR_KEYWORD, p_annotation = T_int, p_default = Empty\<rparr>]\<rparr>"


definition union_tuple_param :: param where
  "union_tuple_param =
     \<lparr>p_name = ''x'', p_kind = POSITIONAL_OR_KEYWORD,
      p_annotation = Generic O_Union [T_int, Generic O_tuple [T_int, T_Ellipsis]],
      p_default = Empty\<rparr>"


definition adder_callable :: callable where
  "adder_callable =
     \<lparr>f_name = ''f'',
      f_doc = Some (''Adds two numbers together'' @ [newline] @ [newline]
                    @ spaces 4 @ ''Args:'' @ [newline]
                    @ spaces 8 @ ''a:'' @ [newline]
                    @ spaces 12 @ ''The first number to add'' @ [newline]
                    @ spaces 8 @ ''other_number:'' @ [newline]
                    @ spaces 12 @ ''The other number to add whose description'' @ [newline]
                    @ spaces 12 @ ''inexplicably spans multiple lines'' @ [newline]
                    @ spaces 4),
      parameters =
        [\<lparr>p_name = ''a'', p_kind = POSITIONAL_OR_KEYWORD, p_annotation = T_int, p_default = Empty\<rparr>,
         \<lparr>p_name = ''other_number'', p_kind = POSITIONAL_OR_KEYWORD, p_annotation = T_int,
          p_default = Default (V_int 1)\<rparr>]\<rparr>"

definition example_args :: string where
  "example_args =
     spaces 8 @ ''a:'' @ [newline] @ spaces 12 @ ''x'' @ [newline] @ spaces 12 @ ''y''
     @ [newline] @ spaces 8 @ ''b:'' @ [newline] @ spaces 12 @ ''z''"


section \<open>The help text of a parameter\<close>

lemma parse_help_loop_before:
  "spaces 8 @ arg_name @ '':'' \<notin> set pre \<Longrightarrow>
   parse_help_loop arg_name (pre @ ls) d False = parse_help_loop arg_name ls d False"
  by (induction pre) auto

lemma parse_help_loop_block:
  "\<forall>l\<in>set block. startswith l (spaces 12) \<and> l \<noteq> spaces 8 @ arg_name @ '':'' \<Longrightarrow>
   parse_help_loop arg_name (block @ ls) d True =
     parse_help_loop arg_name ls (d @ concat (map (\<lambda>l. '' '' @ strip l) block)) True"
  by (induction block arbitrary: d) auto

lemma parse_help_loop_end:
  "rest = [] \<or> (\<not> startswith (hd rest) (spaces 12) \<and> hd rest \<noteq> spaces 8 @ arg_name @ '':'') \<Longrightarrow>
   parse_help_loop arg_name rest d True = d"
  by (cases rest) auto

text \<open>
  C6, as the code has it. When the lines of the arguments section are: lines without the
  marker, the marker line (8 spaces, the name, a colon), a block of lines that start with
  12 spaces, and then nothing or a line that does not start with 12 spaces (and is not the
  marker again), the help text is the concatenation, over the block, of one space followed
  by the stripped line. So the lines are separated by single spaces and the text also
  begins with one. When no line is the marker, the help text is empty.
\<close>

theorem C6_parse_help:
  "(split_str [newline] args = pre @ [spaces 8 @ arg_name @ '':''] @ block @ rest \<and>
    spaces 8 @ arg_name @ '':'' \<notin> set pre \<and>
    (\<forall>l\<in>set block. startswith l (spaces 12) \<and> l \<noteq> spaces 8 @ arg_name @ '':'') \<and>
    (rest = [] \<or> (\<not> startswith (hd rest) (spaces 12) \<and> hd rest \<noteq> spaces 8 @ arg_name @ '':''))
    \<longrightarrow> parse_help args arg_name = concat (map (\<lambda>l. '' '' @ strip l) block))
   \<and> (spaces 8 @ arg_name @ '':'' \<notin> set (split_str [newline] args)
        \<longrightarrow> parse_help args arg_name = [])"
proof (intro conjI impI)
  assume h: "split_str [newline] args = pre @ [spaces 8 @ arg_name @ '':''] @ block @ rest \<and>
    spaces 8 @ arg_name @ '':'' \<notin> set pre \<and>
    (\<forall>l\<in>set block. startswith l (spaces 12) \<and> l \<noteq> spaces 8 @ arg_name @ '':'') \<and>
    (rest = [] \<or> (\<not> startswith (hd rest) (spaces 12) \<and> hd rest \<noteq> spaces 8 @ arg_name @ '':''))"
  have "parse_help args arg_name =
        parse_help_loop arg_name ((spaces 8 @ arg_name @ '':'') # block @ rest) [] False"
    using h by (simp add: parse_help_def parse_help_loop_before)
  also have "\<dots> = parse_help_loop arg_name (block @ rest) [] True"
    by simp
  also have "\<dots> = parse_help_loop arg_name rest (concat (map (\<lambda>l. '' '' @ strip l) block)) True"
    using h parse_help_loop_block [of block arg_name rest "[]"] by simp
  also have "\<dots> = concat (map (\<lambda>l. '' '' @ strip l) block)"
    using h by (intro parse_help_loop_end) blast
  finally show "parse_help args arg_name = concat (map (\<lambda>l. '' '' @ strip l) block)" .
next
  assume "spaces 8 @ arg_name @ '':'' \<notin> set (split_str [newline] args)"
  then show "parse_help args arg_name = []"
    using parse_help_loop_before [of arg_name "split_str [newline] args" "[]" "[]"]
    by (simp add: parse_help_def)
qed

text \<open>
  The theorem at the documentation of two parameters \<open>a\<close> and \<open>b\<close>: the help of \<open>a\<close>
  is its two lines, each after a space; a parameter \<open>c\<close> that is not documented has the
  empty help.
\<close>

theorem C6_parse_help_witness:
  "parse_help example_args ''a'' = '' x y'' \<and> parse_help example_args ''c'' = []"
proof -
  have h1: "split_str [newline] example_args
              = [] @ [spaces 8 @ ''a'' @ '':''] @ [spaces 12 @ ''x'', spaces 12 @ ''y'']
                @ [spaces 8 @ ''b:'', spaces 12 @ ''z'']"
    by code_simp
  have h2: "spaces 8 @ ''a'' @ '':'' \<notin> set []"
    by simp
  have h3: "\<forall>l\<in>set [spaces 12 @ ''x'', spaces 12 @ ''y''].
              startswith l (spaces 12) \<and> l \<noteq> spaces 8 @ ''a'' @ '':''"
    by code_simp
  have h4: "[spaces 8 @ ''b:'', spaces 12 @ ''z''] = [] \<or>
            (\<not> startswith (hd [spaces 8 @ ''b:'', spaces 12 @ ''z'']) (spaces 12) \<and>
             hd [spaces 8 @ ''b:'', spaces 12 @ ''z''] \<noteq> spaces 8 @ ''a'' @ '':'')"
    by code_simp
  have h5: "spaces 8 @ ''c'' @ '':'' \<notin> set (split_str [newline] example_args)"
    by code_simp
  have a: "parse_help example_args ''a''
             = concat (map (\<lambda>l. '' '' @ strip l) [spaces 12 @ ''x'', spaces 12 @ ''y''])"
    using C6_parse_help [of example_args "[]" "''a''" "[spaces 12 @ ''x'', spaces 12 @ ''y'']"
            "[spaces 8 @ ''b:'', spaces 12 @ ''z'']"] h1 h2 h3 h4
    by blast
  have c: "parse_help example_args ''c'' = []"
    using C6_parse_help [of example_args "[]" "''c''" "[]" "[]"] h5 by blast
  have "concat (map (\<lambda>l. '' '' @ strip l) [spaces 12 @ ''x'', spaces 12 @ ''y'']) = '' x y''"
    by code_simp
  with a c show ?thesis by simp
qed

text \<open>
  C6 as the specification words it fails: for two continuation lines \<open>x\<close> and \<open>y\<close> the
  stripped lines joined by a single space are \<open>x y\<close>, and the code returns that text
  after a leading space.
\<close>

theorem C6_counterexample:
  "parse_help (spaces 8 @ ''a:'' @ [newline] @ spaces 12 @ ''x'' @ [newline] @ spaces 12 @ ''y'') ''a''
     \<noteq> spec_help_text [spaces 12 @ ''x'', spaces 12 @ ''y'']"
  by code_simp

section \<open>The action of a mapping-typed flag\<close>

lemma contains_char: "contains s [c] \<longleftrightarrow> c \<in> set s"
  by (induction s) (auto simp: startswith_def)

lemma split_acc_no_sep:
  "c \<notin> set s \<Longrightarrow> split_acc [c] acc s = [acc @ s]"
  by (induction s arbitrary: acc) auto

lemma split_acc_first:
  "c \<notin> set k \<Longrightarrow> split_acc [c] acc (k @ c # v) = (acc @ k) # split_acc [c] [] v"
  by (induction k arbitrary: acc) auto

lemma split_str_one:
  "c \<notin> set k \<Longrightarrow> c \<notin> set v \<Longrightarrow> split_str [c] (k @ c # v) = [k, v]"
  by (simp add: split_str_def split_acc_first split_acc_no_sep)

lemma length_split_acc: "length (split_acc [c] acc s) = Suc (count_list s c)"
  by (induction s arbitrary: acc) auto

lemma length_split_str: "length (split_str [c] s) = Suc (count_list s c)"
  by (simp add: split_str_def length_split_acc)

lemma count_one_decompose:
  "count_list t c = 1 \<Longrightarrow> \<exists>k v. t = k @ c # v \<and> c \<notin> set k \<and> c \<notin> set v"
proof (induction t)
  case Nil
  then show ?case by simp
next
  case (Cons a t)
  show ?case
  proof (cases "a = c")
    case True
    with Cons.prems have "count_list t c = 0" by simp
    then have "c \<notin> set t" by (simp add: count_list_0_iff)
    with True show ?thesis by (intro exI [of _ "[]"] exI [of _ t]) simp
  next
    case False
    with Cons obtain k v where "t = k @ c # v" "c \<notin> set k" "c \<notin> set v" by auto
    with False show ?thesis by (intro exI [of _ "a # k"] exI [of _ v]) simp
  qed
qed

lemma dropWhile_until: "c \<notin> set k \<Longrightarrow> dropWhile (\<lambda>x. x \<noteq> c) (k @ c # v) = c # v"
  by (induction k) auto

lemma takeWhile_until: "c \<notin> set k \<Longrightarrow> takeWhile (\<lambda>x. x \<noteq> c) (k @ c # v) = k"
  by (induction k) auto

lemma partition_eq_one:
  "CHR ''='' \<notin> set k \<Longrightarrow> partition_eq (k @ CHR ''='' # v) = (k, ''='', v)"
  by (simp add: partition_eq_def dropWhile_until takeWhile_until Let_def)

lemma dict_loop_step:
  assumes "count_list t (CHR ''='') = 1"
  shows "dict_loop type' (t # ts) d =
           (case type' (entry_value t) of
              Inl e \<Rightarrow> Inl e
            | Inr x \<Rightarrow> dict_loop type' ts (AList.update (entry_key t) x d))"
proof -
  from count_one_decompose [OF assms] obtain k v
    where t: "t = k @ CHR ''='' # v" "CHR ''='' \<notin> set k" "CHR ''='' \<notin> set v" by blast
  have "split_str ''='' t = [k, v]" using t by (simp add: split_str_one)
  moreover have "entry_key t = k" "entry_value t = v"
    using t by (simp_all add: entry_key_def entry_value_def partition_eq_one)
  ultimately show ?thesis by (simp split: sum.splits)
qed

lemma dict_loop_bad:
  assumes "count_list t (CHR ''='') \<noteq> 1"
  shows "dict_loop type' (t # ts) d = Inl ValueError"
proof -
  have "length (split_str ''='' t) \<noteq> 2" using assms by (simp add: length_split_str)
  then show ?thesis by (auto split: list.splits)
qed

lemma dict_loop_ok:
  "\<forall>t\<in>set ts. count_list t (CHR ''='') = 1 \<and> (\<exists>x. type' (entry_value t) = Inr x) \<Longrightarrow>
   \<exists>d'. dict_loop type' ts d = Inr d' \<and>
         map_of d' = map_of (rev (map (\<lambda>t. (entry_key t, projr (type' (entry_value t)))) ts) @ d)"
proof (induction ts arbitrary: d)
  case Nil
  then show ?case by simp
next
  case (Cons t ts)
  then obtain x where x: "type' (entry_value t) = Inr x" and c: "count_list t (CHR ''='') = 1"
    by auto
  from Cons.IH [of "AList.update (entry_key t) x d"] Cons.prems obtain d' where
    d': "dict_loop type' ts (AList.update (entry_key t) x d) = Inr d'"
        "map_of d' = map_of (rev (map (\<lambda>t. (entry_key t, projr (type' (entry_value t)))) ts)
                              @ AList.update (entry_key t) x d)"
    by auto
  have "dict_loop type' (t # ts) d = Inr d'"
    using dict_loop_step [OF c, of type' ts d] x d' by simp
  moreover have "map_of d' = map_of (rev (map (\<lambda>t. (entry_key t, projr (type' (entry_value t)))) (t # ts)) @ d)"
    using d'(2) x by (simp add: update_conv' map_add_def fun_eq_iff split: option.splits)
  ultimately show ?case by blast
qed

lemma dict_loop_fails:
  "\<exists>t\<in>set ts. count_list t (CHR ''='') \<noteq> 1 \<Longrightarrow> isl (dict_loop type' ts d)"
proof (induction ts arbitrary: d)
  case Nil
  then show ?case by simp
next
  case (Cons t ts)
  show ?case
  proof (cases "count_list t (CHR ''='') = 1")
    case True
    with Cons.prems have "\<exists>t\<in>set ts. count_list t (CHR ''='') \<noteq> 1" by auto
    then show ?thesis
      using dict_loop_step [OF True, of type' ts d] Cons.IH by (auto split: sum.splits)
  next
    case False
    then show ?thesis using dict_loop_bad [of t type' ts d] by (simp del: dict_loop.simps)
  qed
qed

lemma dict_loop_ValueError:
  "\<exists>t\<in>set ts. count_list t (CHR ''='') \<noteq> 1 \<Longrightarrow>
   \<forall>t\<in>set ts. count_list t (CHR ''='') = 1 \<longrightarrow> (\<exists>x. type' (entry_value t) = Inr x) \<Longrightarrow>
   dict_loop type' ts d = Inl ValueError"
proof (induction ts arbitrary: d)
  case Nil
  then show ?case by simp
next
  case (Cons t ts)
  show ?case
  proof (cases "count_list t (CHR ''='') = 1")
    case True
    with Cons.prems obtain x where x: "type' (entry_value t) = Inr x" by auto
    from True Cons.prems have "\<exists>t\<in>set ts. count_list t (CHR ''='') \<noteq> 1" by auto
    then show ?thesis
      using dict_loop_step [OF True, of type' ts d] Cons.IH Cons.prems(2) x by auto
  next
    case False
    then show ?thesis using dict_loop_bad [of t type' ts d] by (simp del: dict_loop.simps)
  qed
qed

text \<open>
  C2, as the code has it. When the tokens are not a single token without separator:
  if every token has exactly one separator and every value part is accepted by the value
  type, the flag is set to a mapping in which each key (the part before the separator,
  which may be empty) has the coerced value of the last token with that key; if some
  token has no separator or more than one, the call raises, and what it raises is
  \<open>ValueError\<close> when the value type accepts the value parts of the well-formed tokens.
\<close>

theorem C2_dict_entries:
  assumes "\<not> (length values = 1 \<and> CHR ''='' \<notin> set (hd values))"
  shows "((\<forall>t\<in>set values. count_list t (CHR ''='') = 1 \<and> (\<exists>x. type' (entry_value t) = Inr x)) \<longrightarrow>
            (\<exists>d. DictParsingAction_call type' dest namespace values
                    = Inr (setattr namespace dest (V_dict d)) \<and>
                  map_of d = map_of (rev (map (\<lambda>t. (entry_key t, projr (type' (entry_value t)))) values))))
         \<and> ((\<exists>t\<in>set values. count_list t (CHR ''='') \<noteq> 1) \<longrightarrow>
              isl (DictParsingAction_call type' dest namespace values))
         \<and> ((\<exists>t\<in>set values. count_list t (CHR ''='') \<noteq> 1) \<and>
             (\<forall>t\<in>set values. count_list t (CHR ''='') = 1 \<longrightarrow> (\<exists>x. type' (entry_value t) = Inr x)) \<longrightarrow>
              DictParsingAction_call type' dest namespace values = Inl ValueError)"
proof -
  have call: "DictParsingAction_call type' dest namespace values =
        (case dict_loop type' values [] of
           Inl e \<Rightarrow> Inl e
         | Inr dict_value \<Rightarrow> Inr (setattr namespace dest (V_dict dict_value)))"
    using assms by (auto simp: DictParsingAction_call_def contains_char)
  show ?thesis
  proof (intro conjI impI)
    assume "\<forall>t\<in>set values. count_list t (CHR ''='') = 1 \<and> (\<exists>x. type' (entry_value t) = Inr x)"
    from dict_loop_ok [OF this, of "[]"] show
      "\<exists>d. DictParsingAction_call type' dest namespace values
              = Inr (setattr namespace dest (V_dict d)) \<and>
            map_of d = map_of (rev (map (\<lambda>t. (entry_key t, projr (type' (entry_value t)))) values))"
      by (auto simp: call)
  next
    assume "\<exists>t\<in>set values. count_list t (CHR ''='') \<noteq> 1"
    from dict_loop_fails [OF this, of type' "[]"] show
      "isl (DictParsingAction_call type' dest namespace values)"
      by (auto simp: call split: sum.splits)
  next
    assume "(\<exists>t\<in>set values. count_list t (CHR ''='') \<noteq> 1) \<and>
             (\<forall>t\<in>set values. count_list t (CHR ''='') = 1 \<longrightarrow> (\<exists>x. type' (entry_value t) = Inr x))"
    then show "DictParsingAction_call type' dest namespace values = Inl ValueError"
      using dict_loop_ValueError [of "values" type' "[]"] by (simp add: call)
  qed
qed

text \<open>
  The theorem at the tokens \<open>a=1 b=2 a=3\<close> with the value type \<open>int\<close>: the mapping
  has \<open>a\<close> at 3, the last write. At \<open>a=1 5\<close> the second token has no separator and
  the call raises \<open>ValueError\<close>.
\<close>

theorem C2_dict_entries_witness:
  "(\<exists>d. DictParsingAction_call (call_type py_call_type T_int) ''d'' [] [''a=1'', ''b=2'', ''a=3'']
          = Inr (setattr [] ''d'' (V_dict d)) \<and>
        map_of d ''a'' = Some (V_int 3) \<and> map_of d ''b'' = Some (V_int 2))
   \<and> DictParsingAction_call (call_type py_call_type T_int) ''d'' [] [''a=1'', ''5''] = Inl ValueError"
proof -
  let ?ty = "call_type py_call_type T_int"
  have v: "?ty (entry_value ''a=1'') = Inr (V_int 1)" "?ty (entry_value ''b=2'') = Inr (V_int 2)"
    "?ty (entry_value ''a=3'') = Inr (V_int 3)"
    by code_simp+
  have k: "entry_key ''a=1'' = ''a''" "entry_key ''b=2'' = ''b''" "entry_key ''a=3'' = ''a''"
    by code_simp+
  have h1: "\<not> (length [''a=1'', ''b=2'', ''a=3''] = 1 \<and> CHR ''='' \<notin> set (hd [''a=1'', ''b=2'', ''a=3'']))"
    by simp
  have h2: "\<forall>t\<in>set [''a=1'', ''b=2'', ''a=3''].
              count_list t (CHR ''='') = 1 \<and> (\<exists>x. ?ty (entry_value t) = Inr x)"
    using v by simp
  from C2_dict_entries [OF h1, of ?ty "''d''" "[]"] h2 obtain d where
    d: "DictParsingAction_call ?ty ''d'' [] [''a=1'', ''b=2'', ''a=3'']
          = Inr (setattr [] ''d'' (V_dict d))"
       "map_of d = map_of (rev (map (\<lambda>t. (entry_key t, projr (?ty (entry_value t))))
                                 [''a=1'', ''b=2'', ''a=3'']))"
    by blast
  have "map_of d ''a'' = Some (V_int 3)" "map_of d ''b'' = Some (V_int 2)"
    using d(2) v k by simp_all
  moreover
  have g1: "\<not> (length [''a=1'', ''5''] = 1 \<and> CHR ''='' \<notin> set (hd [''a=1'', ''5'']))"
    by simp
  have g2: "(\<exists>t\<in>set [''a=1'', ''5'']. count_list t (CHR ''='') \<noteq> 1) \<and>
            (\<forall>t\<in>set [''a=1'', ''5'']. count_list t (CHR ''='') = 1
                \<longrightarrow> (\<exists>x. ?ty (entry_value t) = Inr x))"
    using v by simp
  have "DictParsingAction_call ?ty ''d'' [] [''a=1'', ''5''] = Inl ValueError"
    using C2_dict_entries [OF g1, of ?ty "''d''" "[]"] g2 by blast
  ultimately show ?thesis using d(1) by blast
qed

text \<open>
  C2 as the specification words it fails. The token \<open>a=b=c\<close> split at its first
  separator is the entry \<open>a\<close>, \<open>b=c\<close>; the code splits at both separators and raises.
  The token \<open>=1\<close> has no entry for the specification, its key being empty; the code
  stores the value under the empty key.
\<close>

theorem C2_counterexample:
  "spec_split_entry ''a=b=c'' = Some (''a'', ''b=c'') \<and>
   DictParsingAction_call (call_type py_call_type T_str) ''d'' [] [''a=b=c''] = Inl ValueError \<and>
   spec_split_entry ''=1'' = None \<and>
   DictParsingAction_call (call_type py_call_type T_int) ''d'' [] [''=1'']
     = Inr [(''d'', V_dict [([], V_int 1)])]"
  by code_simp

text \<open>
  C3. A single token without separator is coerced with the value type of the mapping,
  and the result itself becomes the value of the flag: no mapping is built. When the
  coercion raises, so does the call.
\<close>

theorem C3_single_token_scalar:
  "CHR ''='' \<notin> set token \<longrightarrow>
     DictParsingAction_call type' dest namespace [token]
       = (case type' token of Inl e \<Rightarrow> Inl e | Inr x \<Rightarrow> Inr (setattr namespace dest x))
     \<and> (\<forall>x. map_of (setattr namespace dest x) dest = Some x)"
  by (simp add: DictParsingAction_call_def contains_char setattr_def update_conv')

text \<open>The theorem at the single token \<open>5\<close> with the value type \<open>int\<close>.\<close>

theorem C3_single_token_scalar_witness:
  "DictParsingAction_call (call_type py_call_type T_int) ''d'' [] [''5''] = Inr [(''d'', V_int 5)]"
proof -
  have h: "CHR ''='' \<notin> set ''5''" by simp
  have v: "call_type py_call_type T_int ''5'' = Inr (V_int 5)" by code_simp
  have "DictParsingAction_call (call_type py_call_type T_int) ''d'' [] [''5'']
          = Inr (setattr [] ''d'' (V_int 5))"
    using C3_single_token_scalar [of "''5''" "call_type py_call_type T_int" "''d''" "[]"] h v
    by simp
  then show ?thesis by (simp add: setattr_def)
qed

section \<open>Resolution of annotations\<close>


text \<open>
  The handler of \<open>_parse_union\<close> on a \<open>TypeError\<close> that \<open>_enforce_array_like\<close>
  raised: calling the function again raises the same error, so both branches agree.
\<close>

lemma parse_union_handler:
  "enforce_array_like a t n = Inl (TypeError msg) \<Longrightarrow>
   (if contains msg ''Subscripted'' then enforce_array_like a t n else Inl (TypeError msg))
     = Inl (TypeError msg)"
  by simp




lemma parse_union_try_kind: "parse_union_try (p\<lparr>p_kind := k\<rparr>) t = parse_union_try p t"
  by (simp add: parse_union_try_def cong: sum.case_cong bool.case_cong)

lemma parse_union_kind: "parse_union (p\<lparr>p_kind := k\<rparr>) = parse_union p"
  by (simp add: parse_union_def parse_union_try_kind cong: sum.case_cong exn.case_cong if_cong)

lemma argument_kwargs_kind: "argument_kwargs args (p\<lparr>p_kind := k\<rparr>) = argument_kwargs args p"
  by (simp add: argument_kwargs_def parse_union_kind Let_def
      cong: sum.case_cong prod.case_cong default_value.case_cong if_cong)

lemma make_parser_loop_kind:
  "make_parser_loop args (map (\<lambda>p. p\<lparr>p_kind := k\<rparr>) ps) parser = make_parser_loop args ps parser"
  by (induction ps arbitrary: parser) (simp_all add: argument_kwargs_kind split: sum.splits)

text \<open>
  C8, as the code has it. \<open>make_parser\<close> never looks at the kind of a parameter: a
  callable with variadic parameters gets the parser of the same callable with every
  parameter an ordinary one, error or not. Nothing is rejected for being variadic.
\<close>

theorem C8_variadic_not_rejected:
  "make_parser (f\<lparr>parameters := map (\<lambda>p. p\<lparr>p_kind := POSITIONAL_OR_KEYWORD\<rparr>) (parameters f)\<rparr>) prog
     = make_parser f prog"
  by (simp add: make_parser_def make_parser_loop_kind split: prod.splits option.splits)

text \<open>
  C8 as the specification words it fails: for a callable with the two variadic
  parameters \<open>*args\<close> and \<open>**kwargs\<close> the parser is
  built, with the flags \<open>--args\<close> and \<open>--kwargs\<close>.
\<close>

theorem C8_counterexample:
  "(case make_parser variadic_callable None of
      Inl e \<Rightarrow> []
    | Inr parser \<Rightarrow> map a_option_strings (parser_actions parser))
   = [[''-h'', ''--help''], [''--args''], [''--kwargs'']]"
  by code_simp

text \<open>
  C7, as the code has it. For a container whose element type is itself a subscripted
  container, \<open>_parse_array_like\<close> raises nothing: it returns the inner annotation as the
  type of the elements, with one-or-more arity, for a list, a sequence, a variadic tuple
  and a mapping with string keys; and the keyword arguments of a required list of
  containers are built with that type.
\<close>

theorem C7_nested_container_resolves:
  "parse_array_like (Generic O_list [Generic origin args]) (Some O_list) kw
     = Inr (Some (Generic origin args), kw\<lparr>kw_nargs := Some ONE_OR_MORE\<rparr>)
   \<and> parse_array_like (Generic O_Sequence [Generic origin args]) (Some O_Sequence) kw
     = Inr (Some (Generic origin args), kw\<lparr>kw_nargs := Some ONE_OR_MORE\<rparr>)
   \<and> parse_array_like (Generic O_tuple [Generic origin args, T_Ellipsis]) (Some O_tuple) kw
     = Inr (Some (Generic origin args), kw\<lparr>kw_nargs := Some ONE_OR_MORE\<rparr>)
   \<and> parse_array_like (Generic O_dict [T_str, Generic origin args]) (Some O_dict) kw
     = Inr (Some (Generic origin args),
            kw\<lparr>kw_nargs := Some ONE_OR_MORE, kw_action := Some DictParsingAction_class\<rparr>)
   \<and> argument_kwargs doc
        \<lparr>p_name = n, p_kind = k, p_annotation = Generic O_list [Generic origin args],
         p_default = Empty\<rparr>
     = Inr (empty_kwargs\<lparr>kw_nargs := Some ONE_OR_MORE, kw_help := Some (parse_help doc n),
                         kw_type := Some (Generic origin args), kw_required := Some True\<rparr>)"
  by (simp add: parse_array_like_def index_def py_assert_def argument_kwargs_def
      get_origin_and_type_def Let_def)

text \<open>
  C7 as the specification words it fails: \<open>List[List[int]]\<close> resolves to the element
  type \<open>List[int]\<close>, and \<open>make_parser\<close> succeeds on \<open>def f(xs: List[List[int]])\<close>.
\<close>

theorem C7_counterexample:
  "parse_array_like (Generic O_list [Generic O_list [T_int]]) (Some O_list) empty_kwargs
     = Inr (Some (Generic O_list [T_int]), empty_kwargs\<lparr>kw_nargs := Some ONE_OR_MORE\<rparr>)
   \<and> \<not> isl (make_parser nested_callable None)"
  by code_simp

text \<open>
  C9 at \<open>x: Union[int, Tuple[int, ...]]\<close>. \<open>_enforce_array_like\<close> asserts that every
  argument of the tuple is the first member of the union, the \<open>Ellipsis\<close> included, so
  the variadic marker makes construction fail; the same tuple written directly passes
  \<open>_parse_array_like\<close>, which skips the marker.
\<close>

theorem C9_union_tuple_variadic:
  "parse_union union_tuple_param = Inl AssertionError
   \<and> isl (make_parser \<lparr>f_name = ''f'', f_doc = None, parameters = [union_tuple_param]\<rparr> None)
   \<and> parse_array_like (Generic O_tuple [T_int, T_Ellipsis]) (Some O_tuple) empty_kwargs
       = Inr (Some T_int, empty_kwargs\<lparr>kw_nargs := Some ONE_OR_MORE\<rparr>)"
  by code_simp

section \<open>Flag names and destinations\<close>

text \<open>
  C10 at \<open>def f(_x: int)\<close>. The flag is \<open>---x\<close>; \<open>argparse\<close> strips all three dashes,
  so the parsed value is keyed \<open>x\<close>, which is not the name of the parameter.
\<close>

theorem C10_leading_underscore:
  "(case make_parser underscore_callable None of
      Inl e \<Rightarrow> Inl e
    | Inr parser \<Rightarrow> parse_args py_call_type parser [''---x'', ''5''])
   = Inr [(''x'', V_int 5)]
   \<and> map p_name (parameters underscore_callable) = [''_x'']"
  by code_simp

section \<open>The wrapper\<close>

text \<open>
  C1. Whenever \<open>make_parser\<close> succeeds, both shapes of the decorator return the
  wrapper over that parser. Called with no argument at all, the wrapper parses
  \<open>sys.argv[1:]\<close> and calls the callable with the parsed namespace as keyword arguments
  (or raises what the parse raises). Called with any positional or keyword argument, it
  returns the result of the callable on exactly these arguments: the right-hand side
  mentions neither the parser nor the argument vector.
\<close>

theorem C1_wrapper_dispatch:
  assumes "make_parser meta prog = Inr parser"
  shows "wrapperwrapper co prog meta f = Inr (wrapper co parser f)
       \<and> (prog = None \<longrightarrow> typeo co meta f = Inr (wrapper co parser f))
       \<and> wrapper co parser f sys_argv [] []
           = (case parse_args co parser (drop 1 sys_argv) of
                Inl e \<Rightarrow> Inl e
              | Inr namespace \<Rightarrow> Inr (f [] namespace))
       \<and> (args \<noteq> [] \<or> kwargs \<noteq> [] \<longrightarrow>
            wrapper co parser f sys_argv args kwargs = Inr (f args kwargs))"
  using assms by (auto simp: wrapperwrapper_def typeo_def wrapper_def)

text \<open>
  The theorem at the \<open>adder\<close>, with a callable that returns its own arguments: the
  command line \<open>--a 1 --other-number 2\<close> is parsed when no argument is given, and an
  explicit keyword argument is passed through whatever the command line is.
\<close>

theorem C1_wrapper_dispatch_witness:
  "wrapper py_call_type (projr (make_parser adder_callable None)) (\<lambda>args kwargs. (args, kwargs))
      [''adder.py'', ''--a'', ''1'', ''--other-number'', ''2''] [] []
     = Inr ([], [(''a'', V_int 1), (''other_number'', V_int 2)])
   \<and> wrapper py_call_type (projr (make_parser adder_callable None)) (\<lambda>args kwargs. (args, kwargs))
      [''adder.py'', ''--nonsense''] [] [(''a'', V_int 4)]
     = Inr ([], [(''a'', V_int 4)])"
proof -
  let ?parser = "projr (make_parser adder_callable None)"
  have h: "make_parser adder_callable None = Inr ?parser"
    by code_simp
  have p: "parse_args py_call_type ?parser (drop 1 [''adder.py'', ''--a'', ''1'', ''--other-number'', ''2''])
             = Inr [(''a'', V_int 1), (''other_number'', V_int 2)]"
    by code_simp
  have k: "([] :: pyval list) \<noteq> [] \<or> [(''a'', V_int 4)] \<noteq> []"
    by simp
  show ?thesis
    using C1_wrapper_dispatch [OF h, of py_call_type "\<lambda>args kwargs. (args, kwargs)"
            "[''adder.py'', ''--a'', ''1'', ''--other-number'', ''2'']" "[]" "[]"]
          C1_wrapper_dispatch [OF h, of py_call_type "\<lambda>args kwargs. (args, kwargs)"
            "[''adder.py'', ''--nonsense'']" "[]" "[(''a'', V_int 4)]"]
          p k
    by simp
qed

section \<open>Boolean flags\<close>



































end
